theory Spec2Isabelle
  imports Main "HOL-Library.AList"
begin

section \<open>Python values and exceptions\<close>

text \<open>
  The values that travel through \<^verbatim>\<open>prepare_configs.py\<close> are what \<^verbatim>\<open>json.loads\<close> and the
  GitLab client hand back: \<^verbatim>\<open>None\<close>, booleans, numbers, strings, lists and dicts with
  string keys. A dict is an association list in insertion order. No function below looks
  at the value of a number, so a number is an \<open>int\<close> here.
\<close>

datatype json =
    JNull
  | JBool bool
  | JNum int
  | JStr string
  | JArr "json list"
  | JObj "(string \<times> json) list"

text \<open>
  The exception classes that can reach the two functions. \<open>OSError\<close> stands for every
  \<^verbatim>\<open>OSError\<close> other than \<^verbatim>\<open>FileNotFoundError\<close> (a permission error, a directory),
  \<open>OtherError\<close> for any class outside the ones named (a transport error, a recursion
  limit).
\<close>

datatype exn =
    SystemExit string
  | FileNotFoundError
  | OSError
  | ValueError
  | UnicodeDecodeError
  | JSONDecodeError
  | binascii_Error
  | TypeError
  | KeyError
  | OtherError

text \<open>\<^verbatim>\<open>except ValueError\<close> catches the class and its subclasses.\<close>

fun is_ValueError :: "exn \<Rightarrow> bool" where
  "is_ValueError ValueError = True"
| "is_ValueError UnicodeDecodeError = True"
| "is_ValueError JSONDecodeError = True"
| "is_ValueError binascii_Error = True"
| "is_ValueError _ = False"

text \<open>Truth value of an object, as \<^verbatim>\<open>not file_blob\<close> tests it.\<close>

fun truthy :: "json \<Rightarrow> bool" where
  "truthy JNull = False"
| "truthy (JBool b) = b"
| "truthy (JNum n) = (n \<noteq> 0)"
| "truthy (JStr s) = (s \<noteq> [])"
| "truthy (JArr xs) = (xs \<noteq> [])"
| "truthy (JObj kvs) = (kvs \<noteq> [])"

text \<open>\<^verbatim>\<open>obj[key]\<close> with a string key: only a dict can be subscripted by a string.\<close>

fun getitem :: "json \<Rightarrow> string \<Rightarrow> exn + json" where
  "getitem (JObj kvs) k = (case map_of kvs k of None \<Rightarrow> Inl KeyError | Some v \<Rightarrow> Inr v)"
| "getitem _ k = Inl TypeError"

text \<open>
  \<^verbatim>\<open>obj[key] = value\<close> with a string key: a dict replaces the value of a key it has and
  appends a new key otherwise; every other value raises \<^verbatim>\<open>TypeError\<close>.
\<close>

fun setitem :: "json \<Rightarrow> string \<Rightarrow> json \<Rightarrow> exn + json" where
  "setitem (JObj kvs) k v = Inr (JObj (AList.update k v kvs))"
| "setitem _ k v = Inl TypeError"

text \<open>\<^verbatim>\<open>isinstance(v, dict)\<close>.\<close>

fun is_dict :: "json \<Rightarrow> bool" where
  "is_dict (JObj kvs) = True"
| "is_dict _ = False"

section \<open>Strings\<close>

text \<open>
  \<^verbatim>\<open>str.isspace\<close> on the code points below 256, and \<^verbatim>\<open>str.strip()\<close> without
  arguments. A \<open>char\<close> is one code point below 256.
\<close>

definition isspace :: "char \<Rightarrow> bool" where
  "isspace c = (let n = (of_char c :: nat) in
     (9 \<le> n \<and> n \<le> 13) \<or> (28 \<le> n \<and> n \<le> 32) \<or> n = 133 \<or> n = 160)"

definition strip :: "string \<Rightarrow> string" where
  "strip s = rev (dropWhile isspace (rev (dropWhile isspace s)))"

text \<open>The first line of a text, without its line break (what \<^verbatim>\<open>readline\<close> ends at).\<close>

definition first_line :: "string \<Rightarrow> string" where
  "first_line s = takeWhile (\<lambda>c. c \<noteq> CHR 0x0A) s"

text \<open>\<^verbatim>\<open>os.path.join(a, b)\<close> on POSIX.\<close>

definition os_path_join :: "string \<Rightarrow> string \<Rightarrow> string" where
  "os_path_join a b =
     (if take 1 b = ''/'' then b
      else if a = [] \<or> last a = CHR ''/'' then a @ b
      else a @ ''/'' @ b)"

section \<open>Constants of the module\<close>

definition ENVS :: "string list" where
  "ENVS = [''build'', ''dev'', ''stage'', ''prod'', ''prodp'', ''stagepci'', ''prods'',
           ''stagesox'']"

text \<open>\<^verbatim>\<open>JSON_ERROR_MSG.format(name)\<close>; the template starts with a double quote.\<close>

definition JSON_ERROR_MSG :: "string \<Rightarrow> string" where
  "JSON_ERROR_MSG name =
     [CHR 0x22] @ name @ [CHR 0x22] @
     '' appears to be invalid json. Please validate it with http://jsonlint.com.''"

definition default_pipeline :: json where
  "default_pipeline = JObj [(''env'', JArr [JStr ''stage'', JStr ''prod''])]"

section \<open>The world outside the module\<close>

text \<open>
  The handle that \<^verbatim>\<open>gitlab.Gitlab(GIT_URL, token=token)\<close> builds, and the three requests the
  module sends through it: \<^verbatim>\<open>getproject(name)\<close>, \<^verbatim>\<open>getfile(project_id, path, ref)\<close> and
  \<^verbatim>\<open>getbranch(project_id, branch)\<close>.
\<close>

record gitlab =
  host :: string
  token :: string

datatype request =
    Getproject string
  | Getfile json string string
  | Getbranch json string

text \<open>
  Everything the module reads from outside is a field of \<open>world\<close>:
  \<^item> \<open>GIT_URL\<close>, the constant imported from \<^verbatim>\<open>..consts\<close>;
  \<^item> \<open>fs path\<close>, the outcome of opening \<open>path\<close> in text mode and reading it to the end:
    the text, or the exception raised by \<^verbatim>\<open>open\<close> or by \<^verbatim>\<open>read\<close>;
  \<^item> \<open>net server request\<close>, the answer of the GitLab client to a request: the decoded
    response (\<^verbatim>\<open>False\<close> is \<open>JBool False\<close>), or the exception it raises;
  \<^item> \<open>b64decode\<close>, \<open>bytes_decode\<close> (\<^verbatim>\<open>bytes.decode()\<close>) and \<open>json_loads\<close>, the library
    functions, each returning its value or the exception it raises.
\<close>

record world =
  GIT_URL :: string
  fs :: "string \<Rightarrow> exn + string"
  net :: "gitlab \<Rightarrow> request \<Rightarrow> exn + json"
  b64decode :: "json \<Rightarrow> exn + string"
  bytes_decode :: "string \<Rightarrow> exn + string"
  json_loads :: "string \<Rightarrow> exn + json"

type_synonym configs = "string \<rightharpoonup> json"

type_synonym log = "(gitlab \<times> request) list"

text \<open>A request through the client: the answer, and the request appended to the log.\<close>

definition call :: "world \<Rightarrow> gitlab \<Rightarrow> request \<Rightarrow> log \<Rightarrow> (exn + json) \<times> log" where
  "call W server rq lg = (net W server rq, lg @ [(server, rq)])"

text \<open>
  \<^verbatim>\<open>try: ... except ValueError: raise SystemExit(JSON_ERROR_MSG.format(name))\<close> around a
  computation whose outcome is \<open>r\<close>.
\<close>

definition except_ValueError :: "exn + 'a \<Rightarrow> string \<Rightarrow> exn + 'a" where
  "except_ValueError r name =
     (case r of
        Inl e \<Rightarrow> if is_ValueError e then Inl (SystemExit (JSON_ERROR_MSG name)) else Inl e
      | Inr v \<Rightarrow> Inr v)"

section \<open>process_git_configs\<close>

text \<open>
  Lines 32-37: the token is the whole text of the file, stripped. Only
  \<^verbatim>\<open>FileNotFoundError\<close> is caught.
\<close>

definition read_token :: "world \<Rightarrow> string \<Rightarrow> exn + string" where
  "read_token W token_file =
     (case fs W token_file of
        Inl e \<Rightarrow>
          if e = FileNotFoundError
          then Inl (SystemExit (''GitLab private token file missing: '' @ token_file))
          else Inl e
      | Inr text \<Rightarrow> Inr (strip text))"

text \<open>
  Lines 57-62 and 75-81: \<^verbatim>\<open>b64decode(blob['content'])\<close> outside the \<^verbatim>\<open>try\<close>, then
  \<^verbatim>\<open>json.loads(contents.decode())\<close> inside it.
\<close>

definition load_blob :: "world \<Rightarrow> string \<Rightarrow> json \<Rightarrow> exn + json" where
  "load_blob W name blob =
     (case getitem blob ''content'' of
        Inl e \<Rightarrow> Inl e
      | Inr c \<Rightarrow>
          (case b64decode W c of
             Inl e \<Rightarrow> Inl e
           | Inr file_contents \<Rightarrow>
               except_ValueError
                 (case bytes_decode W file_contents of
                    Inl e \<Rightarrow> Inl e
                  | Inr s \<Rightarrow> json_loads W s)
                 name))"

definition app_json :: "string \<Rightarrow> string" where
  "app_json env = ''runway/application-master-'' @ env @ ''.json''"

text \<open>Lines 44-62: the loop over the environments.\<close>

fun git_envs ::
  "world \<Rightarrow> gitlab \<Rightarrow> json \<Rightarrow> string list \<Rightarrow> configs \<Rightarrow> log \<Rightarrow> (exn + configs) \<times> log" where
  "git_envs W server project_id [] app_configs lg = (Inr app_configs, lg)"
| "git_envs W server project_id (env # envs) app_configs lg =
     (case call W server (Getfile project_id (app_json env) ''master'') lg of
        (Inl e, lg') \<Rightarrow> (Inl e, lg')
      | (Inr file_blob, lg') \<Rightarrow>
          if \<not> truthy file_blob
          then git_envs W server project_id envs app_configs lg'
          else (case load_blob W (app_json env) file_blob of
                  Inl e \<Rightarrow> (Inl e, lg')
                | Inr v \<Rightarrow> git_envs W server project_id envs (app_configs(env \<mapsto> v)) lg'))"

text \<open>Lines 64-81: the pipeline file, or its default.\<close>

definition git_pipeline ::
  "world \<Rightarrow> gitlab \<Rightarrow> json \<Rightarrow> configs \<Rightarrow> log \<Rightarrow> (exn + configs) \<times> log" where
  "git_pipeline W server project_id app_configs lg =
     (case call W server (Getfile project_id ''runway/pipeline.json'' ''master'') lg of
        (Inl e, lg') \<Rightarrow> (Inl e, lg')
      | (Inr pipeline_blob, lg') \<Rightarrow>
          if \<not> truthy pipeline_blob
          then (Inr (app_configs(''pipeline'' \<mapsto> default_pipeline)), lg')
          else (case load_blob W ''runway/pipeline.json'' pipeline_blob of
                  Inl e \<Rightarrow> (Inl e, lg')
                | Inr v \<Rightarrow> (Inr (app_configs(''pipeline'' \<mapsto> v)), lg')))"

text \<open>
  Line 83: \<^verbatim>\<open>server.getbranch(project_id, 'master')['commit']['id']\<close>.
\<close>

definition git_commit_id :: "world \<Rightarrow> gitlab \<Rightarrow> json \<Rightarrow> log \<Rightarrow> (exn + json) \<times> log" where
  "git_commit_id W server project_id lg =
     (case call W server (Getbranch project_id ''master'') lg of
        (Inl e, lg') \<Rightarrow> (Inl e, lg')
      | (Inr branch, lg') \<Rightarrow>
          (case getitem branch ''commit'' of
             Inl e \<Rightarrow> (Inl e, lg')
           | Inr commit \<Rightarrow> (getitem commit ''id'', lg')))"

text \<open>
  Line 85: \<^verbatim>\<open>app_configs['pipeline']['config_commit'] = config_commit\<close>. The bundle is a
  \<^verbatim>\<open>defaultdict(dict)\<close>: reading a key it lacks yields a new empty dict.
\<close>

definition set_config_commit :: "configs \<Rightarrow> json \<Rightarrow> exn + configs" where
  "set_config_commit app_configs config_commit =
     (let pipeline = (case app_configs ''pipeline'' of None \<Rightarrow> JObj [] | Some p \<Rightarrow> p)
      in case setitem pipeline ''config_commit'' config_commit of
           Inl e \<Rightarrow> Inl e
         | Inr p' \<Rightarrow> Inr (app_configs(''pipeline'' \<mapsto> p')))"

definition process_git_configs ::
  "world \<Rightarrow> string \<Rightarrow> string \<Rightarrow> (exn + configs) \<times> log" where
  "process_git_configs W git_short token_file =
     (case read_token W token_file of
        Inl e \<Rightarrow> (Inl e, [])
      | Inr tok \<Rightarrow>
          (let server = \<lparr>host = GIT_URL W, token = tok\<rparr> in
           case call W server (Getproject git_short) [] of
             (Inl e, lg1) \<Rightarrow> (Inl e, lg1)
           | (Inr project, lg1) \<Rightarrow>
               (case getitem project ''id'' of
                  Inl e \<Rightarrow> (Inl e, lg1)
                | Inr project_id \<Rightarrow>
                    (case git_envs W server project_id ENVS Map.empty lg1 of
                       (Inl e, lg2) \<Rightarrow> (Inl e, lg2)
                     | (Inr cfg2, lg2) \<Rightarrow>
                         (case git_pipeline W server project_id cfg2 lg2 of
                            (Inl e, lg3) \<Rightarrow> (Inl e, lg3)
                          | (Inr cfg3, lg3) \<Rightarrow>
                              (case git_commit_id W server project_id lg3 of
                                 (Inl e, lg4) \<Rightarrow> (Inl e, lg4)
                               | (Inr config_commit, lg4) \<Rightarrow>
                                   (set_config_commit cfg3 config_commit, lg4)))))))"

section \<open>process_runway_configs\<close>

definition file_json :: "string \<Rightarrow> string" where
  "file_json env = ''application-master-'' @ env @ ''.json''"

text \<open>
  The body of a \<^verbatim>\<open>try\<close> that opens a file and hands it to \<^verbatim>\<open>json.load\<close>.
\<close>

definition json_load :: "world \<Rightarrow> string \<Rightarrow> exn + json" where
  "json_load W file_name =
     (case fs W file_name of
        Inl e \<Rightarrow> Inl e
      | Inr text \<Rightarrow> json_loads W text)"

text \<open>Lines 104-119: the loop over the environments.\<close>

fun runway_envs :: "world \<Rightarrow> string \<Rightarrow> string list \<Rightarrow> configs \<Rightarrow> exn + configs" where
  "runway_envs W runway_dir [] app_configs = Inr app_configs"
| "runway_envs W runway_dir (env # envs) app_configs =
     (case json_load W (os_path_join runway_dir (file_json env)) of
        Inr v \<Rightarrow> runway_envs W runway_dir envs (app_configs(env \<mapsto> v))
      | Inl e \<Rightarrow>
          if e = FileNotFoundError then runway_envs W runway_dir envs app_configs
          else if is_ValueError e then Inl (SystemExit (JSON_ERROR_MSG (file_json env)))
          else Inl e)"

text \<open>Lines 121-132: the pipeline file, or its default.\<close>

definition runway_pipeline :: "world \<Rightarrow> string \<Rightarrow> configs \<Rightarrow> exn + configs" where
  "runway_pipeline W runway_dir app_configs =
     (let pipeline_file = os_path_join runway_dir ''pipeline.json'' in
      case json_load W pipeline_file of
        Inr v \<Rightarrow> Inr (app_configs(''pipeline'' \<mapsto> v))
      | Inl e \<Rightarrow>
          if e = FileNotFoundError then Inr (app_configs(''pipeline'' \<mapsto> default_pipeline))
          else if is_ValueError e then Inl (SystemExit (JSON_ERROR_MSG pipeline_file))
          else Inl e)"

definition process_runway_configs :: "world \<Rightarrow> string \<Rightarrow> exn + configs" where
  "process_runway_configs W runway_dir =
     (case runway_envs W runway_dir ENVS Map.empty of
        Inl e \<Rightarrow> Inl e
      | Inr app_configs \<Rightarrow> runway_pipeline W runway_dir app_configs)"

text \<open>
  The value stored under a key of the dict that a run returned; nothing when the run raised
  or the key is absent.
\<close>

definition entry :: "exn + configs \<Rightarrow> string \<Rightarrow> json option" where
  "entry r k = (case r of Inl e \<Rightarrow> None | Inr app_configs \<Rightarrow> app_configs k)"

section \<open>Example worlds\<close>

text \<open>
  The library functions on the arguments the examples pass: the base64 texts of
  \<^verbatim>\<open>{}\<close>, \<^verbatim>\<open>[]\<close>, \<^verbatim>\<open>{\<close> and \<^verbatim>\<open>{"a":1}\<close>, and the JSON texts listed.
\<close>

definition lib_b64decode :: "json \<Rightarrow> exn + string" where
  \<open>lib_b64decode c =
     (case c of
        JStr s \<Rightarrow>
          (case map_of [(''e30='', ''{}''), (''W10='', ''[]''), (''ew=='', ''{''),
                        (''eyJhIjoxfQ=='', ''{"a":1}'')] s of
             Some b \<Rightarrow> Inr b
           | None \<Rightarrow> Inl binascii_Error)
      | _ \<Rightarrow> Inl TypeError)\<close>

definition lib_json_loads :: "string \<Rightarrow> exn + json" where
  \<open>lib_json_loads s =
     (case map_of
        [(''{}'', JObj []),
         (''[]'', JArr []),
         (''{"a":1}'', JObj [(''a'', JNum 1)]),
         (''{"env":["stage"]}'', JObj [(''env'', JArr [JStr ''stage''])]),
         (''{"instance_type":"m5.large"}'', JObj [(''instance_type'', JStr ''m5.large'')]),
         (''{"config_commit":"abc"}'', JObj [(''config_commit'', JStr ''abc'')])] s of
        Some v \<Rightarrow> Inr v
      | None \<Rightarrow> Inl JSONDecodeError)\<close>

text \<open>
  A world given by its files (a path that is not listed does not exist) and by the
  answers of the GitLab client (a request that is not listed is answered \<^verbatim>\<open>False\<close>).
\<close>

definition example_world ::
  "(string \<times> (exn + string)) list \<Rightarrow> (request \<times> json) list \<Rightarrow> world" where
  "example_world files answers =
     \<lparr>GIT_URL = ''https://gitlab.example.com'',
      fs = (\<lambda>path. case map_of files path of None \<Rightarrow> Inl FileNotFoundError | Some r \<Rightarrow> r),
      net = (\<lambda>server rq. case map_of answers rq of None \<Rightarrow> Inr (JBool False) | Some a \<Rightarrow> Inr a),
      b64decode = lib_b64decode,
      bytes_decode = Inr,
      json_loads = lib_json_loads\<rparr>"

text \<open>
  A project with one application file, \<^verbatim>\<open>{"a":1}\<close> for \<^verbatim>\<open>prod\<close>, and no pipeline file.
\<close>

definition example_answers :: "(request \<times> json) list" where
  "example_answers =
     [(Getproject ''forrest/core'', JObj [(''id'', JNum 7)]),
      (Getfile (JNum 7) ''runway/application-master-prod.json'' ''master'',
         JObj [(''content'', JStr ''eyJhIjoxfQ=='')]),
      (Getbranch (JNum 7) ''master'', JObj [(''commit'', JObj [(''id'', JStr ''4f2a'')])])]"

text \<open>A token file, and a directory with one application file and no pipeline file.\<close>

definition example_files :: "(string \<times> (exn + string)) list" where
  \<open>example_files =
     [(''token'', Inr ''  s3cret\<newline>''),
      (''runway/application-master-prod.json'', Inr ''{"instance_type":"m5.large"}'')]\<close>

text \<open>
  The answers of a project whose repository holds the listed files, each given by its path
  and the base64 text of its content.
\<close>

definition example_project :: "(string \<times> string) list \<Rightarrow> (request \<times> json) list" where
  "example_project files =
     [(Getproject ''forrest/core'', JObj [(''id'', JNum 7)]),
      (Getbranch (JNum 7) ''master'', JObj [(''commit'', JObj [(''id'', JStr ''4f2a'')])])] @
     map (\<lambda>(path, content).
            (Getfile (JNum 7) path ''master'', JObj [(''content'', JStr content)])) files"



section \<open>Evaluation rules\<close>


lemmas example_defs =
  example_world_def example_answers_def lib_b64decode_def lib_json_loads_def

lemmas git_defs =
  process_git_configs_def read_token_def call_def git_pipeline_def git_commit_id_def
  set_config_commit_def load_blob_def except_ValueError_def app_json_def ENVS_def
  default_pipeline_def JSON_ERROR_MSG_def Let_def

section \<open>The token file\<close>

lemma strip_append_spaces:
  assumes "\<forall>c\<in>set w. isspace c"
  shows "strip (l @ w) = strip l"
proof (cases "\<forall>c\<in>set l. isspace c")
  case True
  with assms have "dropWhile isspace (l @ w) = []" and "dropWhile isspace l = []" by auto
  then show ?thesis unfolding strip_def by (simp only:)
next
  case False
  then have "dropWhile isspace (l @ w) = dropWhile isspace l @ w"
    by auto
  moreover have "dropWhile isspace (rev w @ xs) = dropWhile isspace xs" for xs
    using assms by (intro dropWhile_append2) auto
  ultimately show ?thesis by (simp add: strip_def)
qed

lemma strip_first_line:
  assumes "\<forall>c\<in>set (dropWhile (\<lambda>c. c \<noteq> CHR 0x0A) s). isspace c"
  shows "strip s = strip (first_line s)"
proof -
  have "s = first_line s @ dropWhile (\<lambda>c. c \<noteq> CHR 0x0A) s"
    by (simp add: first_line_def)
  then have "strip s = strip (first_line s @ dropWhile (\<lambda>c. c \<noteq> CHR 0x0A) s)" by simp
  with assms show ?thesis by (simp only: strip_append_spaces)
qed

lemma call_log: "call W server rq lg = (r, lg') \<Longrightarrow> lg' = lg @ [(server, rq)]"
  by (auto simp: call_def)

lemma git_envs_log:
  "git_envs W server pid envs cfg lg = (r, lg') \<Longrightarrow>
     set lg \<subseteq> set lg' \<and> fst ` set lg' \<subseteq> insert server (fst ` set lg)"
proof (induction envs arbitrary: cfg lg)
  case Nil
  then show ?case by auto
next
  case (Cons env envs)
  let ?lg = "lg @ [(server, Getfile pid (app_json env) ''master'')]"
  have step: "set lg \<subseteq> set ?lg" "fst ` set ?lg \<subseteq> insert server (fst ` set lg)" by auto
  from Cons.prems show ?case
  proof (cases "net W server (Getfile pid (app_json env) ''master'')")
    case (Inl e)
    with Cons.prems step show ?thesis by (auto simp: call_def)
  next
    case (Inr blob)
    show ?thesis
    proof (cases "truthy blob")
      case False
      with Inr Cons.prems have "git_envs W server pid envs cfg ?lg = (r, lg')"
        by (simp add: call_def)
      from Cons.IH[OF this] step show ?thesis by blast
    next
      case True
      show ?thesis
      proof (cases "load_blob W (app_json env) blob")
        case (Inl e)
        with True Inr Cons.prems step show ?thesis by (auto simp: call_def)
      next
        case (Inr v)
        with True \<open>net W server _ = Inr blob\<close> Cons.prems
        have "git_envs W server pid envs (cfg(env \<mapsto> v)) ?lg = (r, lg')"
          by (simp add: call_def)
        from Cons.IH[OF this] step show ?thesis by blast
      qed
    qed
  qed
qed

lemma git_pipeline_log:
  "git_pipeline W server pid cfg lg = (r, lg') \<Longrightarrow> lg' = lg @ [(server, Getfile pid ''runway/pipeline.json'' ''master'')]"
  by (auto simp: git_pipeline_def call_def split: sum.splits if_splits)

lemma git_commit_id_log:
  "git_commit_id W server pid lg = (r, lg') \<Longrightarrow> lg' = lg @ [(server, Getbranch pid ''master'')]"
  by (auto simp: git_commit_id_def call_def split: sum.splits)

lemma process_git_configs_log:
  assumes "fs W token_file = Inr text"
  shows "fst ` set (snd (process_git_configs W git_short token_file)) =
           {\<lparr>host = GIT_URL W, token = strip text\<rparr>}"
proof -
  let ?srv = "\<lparr>host = GIT_URL W, token = strip text\<rparr>"
  let ?lg1 = "[(?srv, Getproject git_short)]"
  define P where "P lg \<longleftrightarrow> fst ` set lg = {?srv}" for lg :: log
  have tok: "read_token W token_file = Inr (strip text)"
    using assms by (simp add: read_token_def)
  have p1: "P ?lg1" by (simp add: P_def)
  have p2: "P lg'" if "git_envs W ?srv pid ENVS cfg lg = (r, lg')" and "P lg" for pid cfg r lg lg'
    using git_envs_log[OF that(1)] that(2) unfolding P_def by blast
  have p3: "P lg'" if "git_pipeline W ?srv pid cfg lg = (r, lg')" and "P lg" for pid cfg r lg lg'
    using git_pipeline_log[OF that(1)] that(2) unfolding P_def by auto
  have p4: "P lg'" if "git_commit_id W ?srv pid lg = (r, lg')" and "P lg" for pid r lg lg'
    using git_commit_id_log[OF that(1)] that(2) unfolding P_def by auto
  have "P (snd (process_git_configs W git_short token_file))"
    unfolding process_git_configs_def tok Let_def call_def
    by (auto split: sum.splits prod.splits) (blast intro: p1 p2 p3 p4)+
  then show ?thesis by (simp add: P_def)
qed

text \<open>
  C6: when the token file does not exist, \<open>process_git_configs\<close> ends with
  \<^verbatim>\<open>SystemExit('GitLab private token file missing: {path}')\<close> for the given path, and
  the log of requests sent to the remote service is empty: it ends before any request.
\<close>

theorem missing_token_file_exits_before_any_request:
  "fs W token_file = Inl FileNotFoundError \<Longrightarrow>
   process_git_configs W git_short token_file =
     (Inl (SystemExit (''GitLab private token file missing: '' @ token_file)), [])"
  by (simp add: process_git_configs_def read_token_def)

theorem missing_token_file_exits_before_any_request_witness:
  "fs (example_world [] example_answers) ''token'' = Inl FileNotFoundError \<and>
   process_git_configs (example_world [] example_answers) ''forrest/core'' ''token'' =
     (Inl (SystemExit ''GitLab private token file missing: token''), [])"
  using missing_token_file_exits_before_any_request
    [of "example_world [] example_answers" "''token''" "''forrest/core''"]
  by (simp add: example_world_def)

text \<open>
  C10: a failure to open or read the token file other than \<^verbatim>\<open>FileNotFoundError\<close> is not
  converted: \<open>process_git_configs\<close> ends with that very exception, not with the
  \<^verbatim>\<open>SystemExit\<close> message, and sends no request.
\<close>

theorem other_token_file_failure_propagates:
  "fs W token_file = Inl e \<Longrightarrow> e \<noteq> FileNotFoundError \<Longrightarrow>
   process_git_configs W git_short token_file = (Inl e, [])"
  by (simp add: process_git_configs_def read_token_def)

theorem other_token_file_failure_propagates_witness:
  "fs (example_world [(''token'', Inl OSError)] example_answers) ''token'' = Inl OSError \<and>
   OSError \<noteq> FileNotFoundError \<and>
   process_git_configs (example_world [(''token'', Inl OSError)] example_answers)
     ''forrest/core'' ''token'' = (Inl OSError, [])"
  using other_token_file_failure_propagates
    [of "example_world [(''token'', Inl OSError)] example_answers" "''token''" OSError
        "''forrest/core''"]
  by (simp add: example_world_def)

text \<open>
  C7 as stated (the token is the first line of the file, trimmed) fails. With the token
  file \<^verbatim>\<open>abc\ndef\n\<close> the handle of the first request carries the token \<^verbatim>\<open>abc\ndef\<close>,
  while the trimmed first line is \<^verbatim>\<open>abc\<close>.
\<close>

theorem token_first_line_counterexample:
  "fs (example_world [(''token'', Inr ''abc\<newline>def\<newline>'')] []) ''token'' =
     Inr ''abc\<newline>def\<newline>'' \<and>
   token (fst (hd (snd (process_git_configs
     (example_world [(''token'', Inr ''abc\<newline>def\<newline>'')] []) ''forrest/core'' ''token'')))) =
     ''abc\<newline>def'' \<and>
   strip (first_line ''abc\<newline>def\<newline>'') = ''abc''"
  by (simp add: example_world_def process_git_configs_def read_token_def call_def Let_def
      strip_def isspace_def first_line_def)

text \<open>
  C7 as amended: for every readable token file, every request of \<open>process_git_configs\<close>
  goes through a handle whose token is the whole text of the file with surrounding
  whitespace trimmed (and at least one request is sent). That token is the trimmed first
  line whenever nothing but whitespace follows the first line.
\<close>

theorem token_is_stripped_file_text:
  "fs W token_file = Inr text \<Longrightarrow>
   fst ` set (snd (process_git_configs W git_short token_file)) =
     {\<lparr>host = GIT_URL W, token = strip text\<rparr>} \<and>
   ((\<forall>c\<in>set (dropWhile (\<lambda>c. c \<noteq> CHR 0x0A) text). isspace c) \<longrightarrow>
      strip text = strip (first_line text))"
  using process_git_configs_log strip_first_line by blast

theorem token_is_stripped_file_text_witness:
  "fs (example_world [(''token'', Inr ''  s3cret\<newline>'')] example_answers) ''token'' =
     Inr ''  s3cret\<newline>'' \<and>
   fst ` set (snd (process_git_configs
     (example_world [(''token'', Inr ''  s3cret\<newline>'')] example_answers) ''forrest/core'' ''token'')) =
     {\<lparr>host = ''https://gitlab.example.com'', token = ''s3cret''\<rparr>} \<and>
   list_all isspace (dropWhile (\<lambda>c. c \<noteq> CHR 0x0A) ''  s3cret\<newline>'') \<and>
   strip (first_line ''  s3cret\<newline>'') = ''s3cret''"
proof -
  have f: "fs (example_world [(''token'', Inr ''  s3cret\<newline>'')] example_answers) ''token'' =
     Inr ''  s3cret\<newline>''"
    by (simp add: example_world_def)
  have s: "strip ''  s3cret\<newline>'' = ''s3cret''"
    by (simp add: strip_def isspace_def)
  have w: "\<forall>c\<in>set (dropWhile (\<lambda>c. c \<noteq> CHR 0x0A) ''  s3cret\<newline>''). isspace c"
    by (simp add: isspace_def)
  have g: "GIT_URL (example_world [(''token'', Inr ''  s3cret\<newline>'')] example_answers) =
     ''https://gitlab.example.com''"
    by (simp add: example_world_def)
  from token_is_stripped_file_text [OF f, of "''forrest/core''"] w
  show ?thesis unfolding s g list_all_iff using f by metis
qed


section \<open>The loops\<close>


lemma git_envs_step:
  assumes "git_envs W server pid (env # envs) cfg lg = (Inr cfg', lg')"
  obtains blob cfg1 lg1 where
    "net W server (Getfile pid (app_json env) ''master'') = Inr blob"
    "git_envs W server pid envs cfg1 lg1 = (Inr cfg', lg')"
    "if truthy blob then \<exists>v. load_blob W (app_json env) blob = Inr v \<and> cfg1 = cfg(env \<mapsto> v)
     else cfg1 = cfg"
  using assms by (auto simp: call_def split: sum.splits if_splits)

lemma git_envs_other:
  "git_envs W server pid envs cfg lg = (Inr cfg', lg') \<Longrightarrow> k \<notin> set envs \<Longrightarrow> cfg' k = cfg k"
proof (induction envs arbitrary: cfg lg)
  case Nil
  then show ?case by simp
next
  case (Cons env envs)
  from Cons.prems(1) obtain blob cfg1 lg1 where
    tl: "git_envs W server pid envs cfg1 lg1 = (Inr cfg', lg')" and
    c1: "if truthy blob then \<exists>v. load_blob W (app_json env) blob = Inr v \<and> cfg1 = cfg(env \<mapsto> v)
         else cfg1 = cfg"
    by (rule git_envs_step)
  from Cons.prems(2) have "k \<noteq> env" "k \<notin> set envs" by auto
  with c1 have "cfg1 k = cfg k" by (auto split: if_splits)
  with Cons.IH[OF tl \<open>k \<notin> set envs\<close>] show ?case by simp
qed

lemma git_envs_entry:
  "git_envs W server pid envs cfg lg = (Inr cfg', lg') \<Longrightarrow> env \<in> set envs \<Longrightarrow>
   \<exists>blob. net W server (Getfile pid (app_json env) ''master'') = Inr blob \<and>
     (if truthy blob
      then \<exists>v. load_blob W (app_json env) blob = Inr v \<and> cfg' env = Some v
      else cfg' env = cfg env)"
proof (induction envs arbitrary: cfg lg)
  case Nil
  then show ?case by simp
next
  case (Cons x envs)
  from Cons.prems(1) obtain blob cfg1 lg1 where
    blob: "net W server (Getfile pid (app_json x) ''master'') = Inr blob" and
    tl: "git_envs W server pid envs cfg1 lg1 = (Inr cfg', lg')" and
    c1: "if truthy blob then \<exists>v. load_blob W (app_json x) blob = Inr v \<and> cfg1 = cfg(x \<mapsto> v)
         else cfg1 = cfg"
    by (rule git_envs_step)
  show ?case
  proof (cases "env \<in> set envs")
    case True
    from Cons.IH[OF tl True] obtain b where
      b: "net W server (Getfile pid (app_json env) ''master'') = Inr b" and
      r: "if truthy b then \<exists>v. load_blob W (app_json env) b = Inr v \<and> cfg' env = Some v
          else cfg' env = cfg1 env"
      by blast
    have "cfg1 env = cfg env" if "\<not> truthy b"
    proof (cases "env = x")
      case True
      with b blob that c1 show ?thesis by simp
    next
      case False
      with c1 show ?thesis by (auto split: if_splits)
    qed
    with b r show ?thesis by (auto split: if_splits)
  next
    case False
    with Cons.prems(2) have eq: "env = x" by simp
    from git_envs_other[OF tl False] have "cfg' env = cfg1 env" .
    with eq blob c1 show ?thesis by (auto split: if_splits)
  qed
qed


lemma runway_envs_step:
  assumes "runway_envs W d (env # envs) cfg = Inr cfg'"
  obtains cfg1 where
    "runway_envs W d envs cfg1 = Inr cfg'"
    "case json_load W (os_path_join d (file_json env)) of
       Inr v \<Rightarrow> cfg1 = cfg(env \<mapsto> v)
     | Inl e \<Rightarrow> e = FileNotFoundError \<and> cfg1 = cfg"
  using assms by (auto split: sum.splits if_splits)

lemma runway_envs_other:
  "runway_envs W d envs cfg = Inr cfg' \<Longrightarrow> k \<notin> set envs \<Longrightarrow> cfg' k = cfg k"
proof (induction envs arbitrary: cfg)
  case Nil
  then show ?case by simp
next
  case (Cons env envs)
  from Cons.prems(1) obtain cfg1 where
    tl: "runway_envs W d envs cfg1 = Inr cfg'" and
    c1: "case json_load W (os_path_join d (file_json env)) of
           Inr v \<Rightarrow> cfg1 = cfg(env \<mapsto> v)
         | Inl e \<Rightarrow> e = FileNotFoundError \<and> cfg1 = cfg"
    by (rule runway_envs_step)
  from Cons.prems(2) have "k \<noteq> env" "k \<notin> set envs" by auto
  with c1 have "cfg1 k = cfg k" by (auto split: sum.splits)
  with Cons.IH[OF tl \<open>k \<notin> set envs\<close>] show ?case by simp
qed

lemma runway_envs_entry:
  "runway_envs W d envs cfg = Inr cfg' \<Longrightarrow> env \<in> set envs \<Longrightarrow>
   (case json_load W (os_path_join d (file_json env)) of
      Inr v \<Rightarrow> cfg' env = Some v
    | Inl e \<Rightarrow> e = FileNotFoundError \<and> cfg' env = cfg env)"
proof (induction envs arbitrary: cfg)
  case Nil
  then show ?case by simp
next
  case (Cons x envs)
  from Cons.prems(1) obtain cfg1 where
    tl: "runway_envs W d envs cfg1 = Inr cfg'" and
    c1: "case json_load W (os_path_join d (file_json x)) of
           Inr v \<Rightarrow> cfg1 = cfg(x \<mapsto> v)
         | Inl e \<Rightarrow> e = FileNotFoundError \<and> cfg1 = cfg"
    by (rule runway_envs_step)
  show ?case
  proof (cases "env \<in> set envs")
    case True
    from Cons.IH[OF tl True] c1 show ?thesis
      by (cases "env = x") (auto split: sum.splits)
  next
    case False
    with Cons.prems(2) have eq: "env = x" by simp
    from runway_envs_other[OF tl False] have "cfg' env = cfg1 env" .
    with eq c1 show ?thesis by (auto split: sum.splits)
  qed
qed


section \<open>Successful runs\<close>

lemma git_pipeline_result:
  assumes "git_pipeline W server pid cfg lg = (Inr cfg', lg')"
  obtains blob where
    "net W server (Getfile pid ''runway/pipeline.json'' ''master'') = Inr blob"
    "if truthy blob
     then \<exists>v. load_blob W ''runway/pipeline.json'' blob = Inr v \<and> cfg' = cfg(''pipeline'' \<mapsto> v)
     else cfg' = cfg(''pipeline'' \<mapsto> default_pipeline)"
  using assms by (auto simp: git_pipeline_def call_def split: sum.splits if_splits)

lemma git_commit_id_result:
  assumes "git_commit_id W server pid lg = (Inr cid, lg')"
  obtains branch commit where
    "net W server (Getbranch pid ''master'') = Inr branch"
    "getitem branch ''commit'' = Inr commit"
    "getitem commit ''id'' = Inr cid"
  using assms by (auto simp: git_commit_id_def call_def split: sum.splits)

lemma set_config_commit_result:
  assumes "set_config_commit cfg cid = Inr cfg'" and "cfg ''pipeline'' = Some p"
  obtains kvs where
    "p = JObj kvs"
    "cfg' = cfg(''pipeline'' \<mapsto> JObj (AList.update ''config_commit'' cid kvs))"
  using assms by (cases p) (auto simp: set_config_commit_def)

lemma process_git_configs_result:
  assumes "process_git_configs W git_short token_file = (Inr b, lg)"
  obtains body project project_id cfg2 lg2 cfg3 lg3 config_commit where
    "fs W token_file = Inr body"
    "net W \<lparr>host = GIT_URL W, token = strip body\<rparr> (Getproject git_short) = Inr project"
    "getitem project ''id'' = Inr project_id"
    "git_envs W \<lparr>host = GIT_URL W, token = strip body\<rparr> project_id ENVS Map.empty
       [(\<lparr>host = GIT_URL W, token = strip body\<rparr>, Getproject git_short)] = (Inr cfg2, lg2)"
    "git_pipeline W \<lparr>host = GIT_URL W, token = strip body\<rparr> project_id cfg2 lg2 = (Inr cfg3, lg3)"
    "git_commit_id W \<lparr>host = GIT_URL W, token = strip body\<rparr> project_id lg3 = (Inr config_commit, lg)"
    "set_config_commit cfg3 config_commit = Inr b"
proof -
  from assms obtain body where bd: "fs W token_file = Inr body"
    by (cases "fs W token_file")
      (auto simp: process_git_configs_def read_token_def split: if_splits)
  then have tok: "read_token W token_file = Inr (strip body)"
    by (simp add: read_token_def)
  from assms that[OF bd] show thesis
    unfolding process_git_configs_def tok Let_def call_def
    by (auto split: sum.splits prod.splits)
qed

lemma process_runway_configs_result:
  assumes "process_runway_configs W d = Inr b"
  obtains cfg where
    "runway_envs W d ENVS Map.empty = Inr cfg"
    "case json_load W (os_path_join d ''pipeline.json'') of
       Inr v \<Rightarrow> b = cfg(''pipeline'' \<mapsto> v)
     | Inl e \<Rightarrow> e = FileNotFoundError \<and> b = cfg(''pipeline'' \<mapsto> default_pipeline)"
  using assms
  by (auto simp: process_runway_configs_def runway_pipeline_def Let_def
      split: sum.splits if_splits)

lemma pipeline_not_env: "''pipeline'' \<notin> set ENVS"
  by (simp add: ENVS_def)

lemma set_ENVS:
  "set ENVS = {''build'', ''dev'', ''stage'', ''prod'', ''prodp'', ''stagepci'', ''prods'',
     ''stagesox''}"
  by (simp add: ENVS_def)

lemma load_blob_Inr:
  "load_blob W name blob = Inr v \<longleftrightarrow>
     (\<exists>c contents s. getitem blob ''content'' = Inr c \<and> b64decode W c = Inr contents \<and>
        bytes_decode W contents = Inr s \<and> json_loads W s = Inr v)"
  by (auto simp: load_blob_def except_ValueError_def split: sum.splits)

text \<open>The keys and entries of a bundle returned by \<open>process_git_configs\<close>.\<close>

lemma git_bundle:
  assumes "process_git_configs W git_short token_file = (Inr b, lg)"
  obtains body project project_id cfg2 lg2 p config_commit kvs where
    "fs W token_file = Inr body"
    "net W \<lparr>host = GIT_URL W, token = strip body\<rparr> (Getproject git_short) = Inr project"
    "getitem project ''id'' = Inr project_id"
    "git_envs W \<lparr>host = GIT_URL W, token = strip body\<rparr> project_id ENVS Map.empty
       [(\<lparr>host = GIT_URL W, token = strip body\<rparr>, Getproject git_short)] = (Inr cfg2, lg2)"
    "net W \<lparr>host = GIT_URL W, token = strip body\<rparr>
       (Getfile project_id ''runway/pipeline.json'' ''master'') = Inr p"
    "if truthy p then load_blob W ''runway/pipeline.json'' p = Inr (JObj kvs)
     else default_pipeline = JObj kvs"
    "\<exists>branch commit.
       net W \<lparr>host = GIT_URL W, token = strip body\<rparr> (Getbranch project_id ''master'') = Inr branch \<and>
       getitem branch ''commit'' = Inr commit \<and> getitem commit ''id'' = Inr config_commit"
    "b = cfg2(''pipeline'' \<mapsto> JObj (AList.update ''config_commit'' config_commit kvs))"
proof -
  from assms obtain body project project_id cfg2 lg2 cfg3 lg3 config_commit where
    h: "fs W token_file = Inr body"
    "net W \<lparr>host = GIT_URL W, token = strip body\<rparr> (Getproject git_short) = Inr project"
    "getitem project ''id'' = Inr project_id"
    "git_envs W \<lparr>host = GIT_URL W, token = strip body\<rparr> project_id ENVS Map.empty
       [(\<lparr>host = GIT_URL W, token = strip body\<rparr>, Getproject git_short)] = (Inr cfg2, lg2)"
    and pl: "git_pipeline W \<lparr>host = GIT_URL W, token = strip body\<rparr> project_id cfg2 lg2 = (Inr cfg3, lg3)"
    and ci: "git_commit_id W \<lparr>host = GIT_URL W, token = strip body\<rparr> project_id lg3 = (Inr config_commit, lg)"
    and sc: "set_config_commit cfg3 config_commit = Inr b"
    by (rule process_git_configs_result)
  from pl obtain p where
    p: "net W \<lparr>host = GIT_URL W, token = strip body\<rparr>
          (Getfile project_id ''runway/pipeline.json'' ''master'') = Inr p" and
    c3: "if truthy p
         then \<exists>v. load_blob W ''runway/pipeline.json'' p = Inr v \<and> cfg3 = cfg2(''pipeline'' \<mapsto> v)
         else cfg3 = cfg2(''pipeline'' \<mapsto> default_pipeline)"
    by (rule git_pipeline_result)
  from c3 obtain x where x: "cfg3 = cfg2(''pipeline'' \<mapsto> x)" and
    x': "if truthy p then load_blob W ''runway/pipeline.json'' p = Inr x else x = default_pipeline"
    by (auto split: if_splits)
  from x have "cfg3 ''pipeline'' = Some x" by simp
  with sc obtain kvs where kvs: "x = JObj kvs" and
    b: "b = cfg3(''pipeline'' \<mapsto> JObj (AList.update ''config_commit'' config_commit kvs))"
    by (rule set_config_commit_result)
  from ci have br: "\<exists>branch commit.
       net W \<lparr>host = GIT_URL W, token = strip body\<rparr> (Getbranch project_id ''master'') = Inr branch \<and>
       getitem branch ''commit'' = Inr commit \<and> getitem commit ''id'' = Inr config_commit"
    by (rule git_commit_id_result) blast
  from x' kvs have f6: "if truthy p then load_blob W ''runway/pipeline.json'' p = Inr (JObj kvs)
     else default_pipeline = JObj kvs" by (auto split: if_splits)
  from b x have f8: "b = cfg2(''pipeline'' \<mapsto> JObj (AList.update ''config_commit'' config_commit kvs))"
    by simp
  show thesis using that[OF h(1) h(2) h(3) h(4) p f6 br f8] .
qed

section \<open>The claims\<close>


lemmas runway_defs =
  process_runway_configs_def runway_pipeline_def json_load_def os_path_join_def file_json_def
  ENVS_def default_pipeline_def JSON_ERROR_MSG_def Let_def

lemma example_git_run:
  "process_git_configs (example_world example_files example_answers) ''forrest/core'' ''token'' =
    (Inr [''prod'' \<mapsto> JObj [(''a'', JNum 1)],
          ''pipeline'' \<mapsto> JObj [(''env'', JArr [JStr ''stage'', JStr ''prod'']),
                                 (''config_commit'', JStr ''4f2a'')]],
     map (Pair \<lparr>host = ''https://gitlab.example.com'', token = ''s3cret''\<rparr>)
       ([Getproject ''forrest/core''] @
        map (\<lambda>env. Getfile (JNum 7) (app_json env) ''master'') ENVS @
        [Getfile (JNum 7) ''runway/pipeline.json'' ''master'', Getbranch (JNum 7) ''master'']))"
  by (simp add: git_defs example_defs example_files_def strip_def isspace_def)

lemma example_runway_run:
  "process_runway_configs (example_world example_files example_answers) ''runway'' =
     Inr [''prod'' \<mapsto> JObj [(''instance_type'', JStr ''m5.large'')],
          ''pipeline'' \<mapsto> JObj [(''env'', JArr [JStr ''stage'', JStr ''prod''])]]"
  by (simp add: runway_defs example_defs example_files_def)

text \<open>
  C1: on every successful return of \<open>process_git_configs\<close> the \<open>pipeline\<close> entry is a dict
  whose key \<open>config_commit\<close> holds the commit identifier that the \<open>master\<close> branch
  resolved to, whether the remote \<open>pipeline.json\<close> was found or not; when it was not
  found, the entry is exactly the default with \<open>config_commit\<close> added.
\<close>

theorem config_commit_is_resolved_commit:
  assumes "process_git_configs W git_short token_file = (Inr b, lg)"
    and "fs W token_file = Inr text"
    and "server = \<lparr>host = GIT_URL W, token = strip text\<rparr>"
    and "net W server (Getproject git_short) = Inr project"
    and "getitem project ''id'' = Inr project_id"
    and "net W server (Getbranch project_id ''master'') = Inr branch"
    and "getitem branch ''commit'' = Inr commit"
    and "getitem commit ''id'' = Inr config_commit"
  shows "(\<exists>kvs. b ''pipeline'' = Some (JObj kvs) \<and>
            map_of kvs ''config_commit'' = Some config_commit) \<and>
         (\<forall>pipeline_blob.
            net W server (Getfile project_id ''runway/pipeline.json'' ''master'') =
              Inr pipeline_blob \<and> \<not> truthy pipeline_blob \<longrightarrow>
            b ''pipeline'' =
              Some (JObj [(''env'', JArr [JStr ''stage'', JStr ''prod'']),
                          (''config_commit'', config_commit)]))"
proof -
  from assms(1) obtain body project' project_id' cfg2 lg2 p config_commit' kvs where
    h: "fs W token_file = Inr body"
    "net W \<lparr>host = GIT_URL W, token = strip body\<rparr> (Getproject git_short) = Inr project'"
    "getitem project' ''id'' = Inr project_id'"
    and p: "net W \<lparr>host = GIT_URL W, token = strip body\<rparr>
       (Getfile project_id' ''runway/pipeline.json'' ''master'') = Inr p"
    and k: "if truthy p then load_blob W ''runway/pipeline.json'' p = Inr (JObj kvs)
     else default_pipeline = JObj kvs"
    and br: "\<exists>branch commit.
       net W \<lparr>host = GIT_URL W, token = strip body\<rparr> (Getbranch project_id' ''master'') = Inr branch \<and>
       getitem branch ''commit'' = Inr commit \<and> getitem commit ''id'' = Inr config_commit'"
    and b: "b = cfg2(''pipeline'' \<mapsto> JObj (AList.update ''config_commit'' config_commit' kvs))"
    by (rule git_bundle)
  from h assms have same: "body = text" "project' = project" "project_id' = project_id"
    by auto
  with br assms have cc: "config_commit' = config_commit" by auto
  have "map_of (AList.update ''config_commit'' config_commit kvs) ''config_commit'' =
      Some config_commit"
    by (simp add: update_conv')
  with b cc have first: "\<exists>kvs. b ''pipeline'' = Some (JObj kvs) \<and>
            map_of kvs ''config_commit'' = Some config_commit"
    by simp
  have "b ''pipeline'' = Some (JObj [(''env'', JArr [JStr ''stage'', JStr ''prod'']),
                          (''config_commit'', config_commit)])"
    if "net W server (Getfile project_id ''runway/pipeline.json'' ''master'') = Inr pipeline_blob"
      and "\<not> truthy pipeline_blob" for pipeline_blob
  proof -
    from that p same assms(3) have "\<not> truthy p" by simp
    with k have "kvs = [(''env'', JArr [JStr ''stage'', JStr ''prod''])]"
      by (simp add: default_pipeline_def)
    with b cc show ?thesis by simp
  qed
  with first show ?thesis by blast
qed

theorem config_commit_is_resolved_commit_witness:
  "\<exists>b lg.
     process_git_configs (example_world example_files example_answers) ''forrest/core'' ''token'' =
       (Inr b, lg) \<and>
     b ''pipeline'' =
       Some (JObj [(''env'', JArr [JStr ''stage'', JStr ''prod'']),
                   (''config_commit'', JStr ''4f2a'')])"
proof -
  let ?W = "example_world example_files example_answers"
  let ?srv = "\<lparr>host = ''https://gitlab.example.com'', token = ''s3cret''\<rparr>"
  obtain b lg where run: "process_git_configs ?W ''forrest/core'' ''token'' = (Inr b, lg)"
    using example_git_run by blast
  have tok: "fs ?W ''token'' = Inr ''  s3cret\<newline>''"
    by (simp add: example_defs example_files_def)
  have srv: "?srv = \<lparr>host = GIT_URL ?W, token = strip ''  s3cret\<newline>''\<rparr>"
    by (simp add: example_defs strip_def isspace_def)
  have pj: "net ?W ?srv (Getproject ''forrest/core'') = Inr (JObj [(''id'', JNum 7)])"
    by (simp add: example_defs)
  have pid: "getitem (JObj [(''id'', JNum 7)]) ''id'' = Inr (JNum 7)" by simp
  have br: "net ?W ?srv (Getbranch (JNum 7) ''master'') =
      Inr (JObj [(''commit'', JObj [(''id'', JStr ''4f2a'')])])"
    by (simp add: example_defs)
  have c: "getitem (JObj [(''commit'', JObj [(''id'', JStr ''4f2a'')])]) ''commit'' =
      Inr (JObj [(''id'', JStr ''4f2a'')])" by simp
  have i: "getitem (JObj [(''id'', JStr ''4f2a'')]) ''id'' = Inr (JStr ''4f2a'')" by simp
  have absent: "net ?W ?srv (Getfile (JNum 7) ''runway/pipeline.json'' ''master'') =
      Inr (JBool False) \<and> \<not> truthy (JBool False)"
    by (simp add: example_defs)
  from config_commit_is_resolved_commit [OF run tok srv pj pid br c i] absent
  have "b ''pipeline'' =
       Some (JObj [(''env'', JArr [JStr ''stage'', JStr ''prod'']),
                   (''config_commit'', JStr ''4f2a'')])"
    by blast
  with run show ?thesis by blast
qed


lemma dom_upd_minus: "dom cfg \<subseteq> S \<Longrightarrow> dom (cfg(k \<mapsto> v)) - {k} \<subseteq> S"
  by auto

lemma dom_none_outside:
  assumes "\<And>k. k \<notin> S \<Longrightarrow> cfg' k = Map.empty k"
  shows "dom cfg' \<subseteq> S"
proof
  fix x
  assume "x \<in> dom cfg'"
  then have "cfg' x \<noteq> None" by auto
  with assms[of x] show "x \<in> S" by auto
qed

text \<open>
  C2: whenever \<open>process_git_configs\<close> or \<open>process_runway_configs\<close> returns a bundle,
  every key of the bundle other than \<open>pipeline\<close> is one of the eight environment names, and
  the key \<open>pipeline\<close> is present.
\<close>

theorem bundle_keys:
  "(process_git_configs W git_short token_file = (Inr b, lg) \<longrightarrow>
      dom b - {''pipeline''} \<subseteq>
        {''build'', ''dev'', ''stage'', ''prod'', ''prodp'', ''stagepci'', ''prods'', ''stagesox''} \<and>
      ''pipeline'' \<in> dom b) \<and>
   (process_runway_configs W runway_dir = Inr b' \<longrightarrow>
      dom b' - {''pipeline''} \<subseteq>
        {''build'', ''dev'', ''stage'', ''prod'', ''prodp'', ''stagepci'', ''prods'', ''stagesox''} \<and>
      ''pipeline'' \<in> dom b')"
proof (intro conjI impI)
  assume run: "process_git_configs W git_short token_file = (Inr b, lg)"
  then obtain body project_id cfg2 lg2 config_commit kvs where
    envs: "git_envs W \<lparr>host = GIT_URL W, token = strip body\<rparr> project_id ENVS Map.empty
       [(\<lparr>host = GIT_URL W, token = strip body\<rparr>, Getproject git_short)] = (Inr cfg2, lg2)"
    and b: "b = cfg2(''pipeline'' \<mapsto> JObj (AList.update ''config_commit'' config_commit kvs))"
    by (rule git_bundle)
  have "dom cfg2 \<subseteq> set ENVS"
    by (rule dom_none_outside) (rule git_envs_other[OF envs])
  then have "dom b - {''pipeline''} \<subseteq> set ENVS"
    unfolding b by (rule dom_upd_minus)
  then show "dom b - {''pipeline''} \<subseteq>
        {''build'', ''dev'', ''stage'', ''prod'', ''prodp'', ''stagepci'', ''prods'', ''stagesox''}"
    by (simp only: set_ENVS)
  from b show "''pipeline'' \<in> dom b" by simp
next
  assume run: "process_runway_configs W runway_dir = Inr b'"
  then obtain cfg where
    envs: "runway_envs W runway_dir ENVS Map.empty = Inr cfg" and
    b: "case json_load W (os_path_join runway_dir ''pipeline.json'') of
       Inr v \<Rightarrow> b' = cfg(''pipeline'' \<mapsto> v)
     | Inl e \<Rightarrow> e = FileNotFoundError \<and> b' = cfg(''pipeline'' \<mapsto> default_pipeline)"
    by (rule process_runway_configs_result)
  from b obtain p where b': "b' = cfg(''pipeline'' \<mapsto> p)" by (auto split: sum.splits)
  have "dom cfg \<subseteq> set ENVS"
    by (rule dom_none_outside) (rule runway_envs_other[OF envs])
  then have "dom b' - {''pipeline''} \<subseteq> set ENVS"
    unfolding b' by (rule dom_upd_minus)
  then show "dom b' - {''pipeline''} \<subseteq>
        {''build'', ''dev'', ''stage'', ''prod'', ''prodp'', ''stagepci'', ''prods'', ''stagesox''}"
    by (simp only: set_ENVS)
  from b' show "''pipeline'' \<in> dom b'" by simp
qed

theorem bundle_keys_witness:
  "(\<exists>b lg.
      process_git_configs (example_world example_files example_answers) ''forrest/core'' ''token'' =
        (Inr b, lg) \<and>
      dom b - {''pipeline''} \<subseteq>
        {''build'', ''dev'', ''stage'', ''prod'', ''prodp'', ''stagepci'', ''prods'', ''stagesox''} \<and>
      ''pipeline'' \<in> dom b) \<and>
   (\<exists>b'.
      process_runway_configs (example_world example_files example_answers) ''runway'' = Inr b' \<and>
      dom b' - {''pipeline''} \<subseteq>
        {''build'', ''dev'', ''stage'', ''prod'', ''prodp'', ''stagepci'', ''prods'', ''stagesox''} \<and>
      ''pipeline'' \<in> dom b')"
proof -
  obtain b lg where g: "process_git_configs (example_world example_files example_answers)
      ''forrest/core'' ''token'' = (Inr b, lg)"
    using example_git_run by blast
  obtain b' where r: "process_runway_configs (example_world example_files example_answers)
      ''runway'' = Inr b'"
    using example_runway_run by blast
  from bundle_keys [of "example_world example_files example_answers" "''forrest/core''"
      "''token''" b lg "''runway''" b'] g r
  show ?thesis by blast
qed


text \<open>
  C3: for each of the eight environment names and every returned bundle. Remote mode: when
  the answer for \<open>runway/application-master-{env}.json\<close> is falsy (the file is absent) the
  bundle has no entry for the environment; when it is truthy the entry is the value that
  \<open>json.loads\<close> returns for the decoded content. Local mode: when opening
  \<open>application-master-{env}.json\<close> in the directory raises \<open>FileNotFoundError\<close> the bundle
  has no entry for the environment; when the file is read and parses, the entry is the
  parsed value.
\<close>

theorem environment_entries:
  "(process_git_configs W git_short token_file = (Inr b, lg) \<and>
    fs W token_file = Inr text \<and>
    net W \<lparr>host = GIT_URL W, token = strip text\<rparr> (Getproject git_short) = Inr project \<and>
    getitem project ''id'' = Inr project_id \<and>
    env \<in> set ENVS \<and>
    net W \<lparr>host = GIT_URL W, token = strip text\<rparr>
      (Getfile project_id (''runway/application-master-'' @ env @ ''.json'') ''master'') =
      Inr file_blob \<longrightarrow>
      (\<not> truthy file_blob \<longrightarrow> b env = None) \<and>
      (truthy file_blob \<longrightarrow>
         (\<exists>c file_contents s v.
            getitem file_blob ''content'' = Inr c \<and> b64decode W c = Inr file_contents \<and>
            bytes_decode W file_contents = Inr s \<and> json_loads W s = Inr v \<and>
            b env = Some v))) \<and>
   (process_runway_configs W runway_dir = Inr b' \<and> env' \<in> set ENVS \<longrightarrow>
      (fs W (os_path_join runway_dir (''application-master-'' @ env' @ ''.json'')) =
         Inl FileNotFoundError \<longrightarrow> b' env' = None) \<and>
      (\<forall>contents v.
         fs W (os_path_join runway_dir (''application-master-'' @ env' @ ''.json'')) =
           Inr contents \<and> json_loads W contents = Inr v \<longrightarrow> b' env' = Some v))"
proof (intro conjI impI; (elim conjE)?)
  assume run: "process_git_configs W git_short token_file = (Inr b, lg)"
    and tok: "fs W token_file = Inr text"
    and pj: "net W \<lparr>host = GIT_URL W, token = strip text\<rparr> (Getproject git_short) = Inr project"
    and pid: "getitem project ''id'' = Inr project_id"
    and env: "env \<in> set ENVS"
    and blob: "net W \<lparr>host = GIT_URL W, token = strip text\<rparr>
      (Getfile project_id (''runway/application-master-'' @ env @ ''.json'') ''master'') =
      Inr file_blob"
  from run obtain body project' project_id' cfg2 lg2 config_commit kvs where
    h: "fs W token_file = Inr body"
    "net W \<lparr>host = GIT_URL W, token = strip body\<rparr> (Getproject git_short) = Inr project'"
    "getitem project' ''id'' = Inr project_id'"
    and envs: "git_envs W \<lparr>host = GIT_URL W, token = strip body\<rparr> project_id' ENVS Map.empty
       [(\<lparr>host = GIT_URL W, token = strip body\<rparr>, Getproject git_short)] = (Inr cfg2, lg2)"
    and b: "b = cfg2(''pipeline'' \<mapsto> JObj (AList.update ''config_commit'' config_commit kvs))"
    by (rule git_bundle)
  from h tok pj pid have same: "body = text" "project_id' = project_id" by auto
  from env pipeline_not_env have ne: "env \<noteq> ''pipeline''" by auto
  with b have be: "b env = cfg2 env" by simp
  from git_envs_entry[OF envs env] blob same
  have entry: "if truthy file_blob
      then \<exists>v. load_blob W (app_json env) file_blob = Inr v \<and> cfg2 env = Some v
      else cfg2 env = None"
    by (auto simp: app_json_def)
  { assume "\<not> truthy file_blob"
    with entry be show "b env = None" by simp }
  { assume "truthy file_blob"
    with entry be show "\<exists>c file_contents s v.
            getitem file_blob ''content'' = Inr c \<and> b64decode W c = Inr file_contents \<and>
            bytes_decode W file_contents = Inr s \<and> json_loads W s = Inr v \<and>
            b env = Some v"
      by (auto simp: load_blob_Inr) }
next
  assume run: "process_runway_configs W runway_dir = Inr b'" and env: "env' \<in> set ENVS"
  from run obtain cfg where
    envs: "runway_envs W runway_dir ENVS Map.empty = Inr cfg" and
    b: "case json_load W (os_path_join runway_dir ''pipeline.json'') of
       Inr v \<Rightarrow> b' = cfg(''pipeline'' \<mapsto> v)
     | Inl e \<Rightarrow> e = FileNotFoundError \<and> b' = cfg(''pipeline'' \<mapsto> default_pipeline)"
    by (rule process_runway_configs_result)
  from b obtain p where b': "b' = cfg(''pipeline'' \<mapsto> p)" by (auto split: sum.splits)
  from env pipeline_not_env have "env' \<noteq> ''pipeline''" by auto
  with b' have be: "b' env' = cfg env'" by simp
  note entry = runway_envs_entry[OF envs env, unfolded file_json_def]
  { assume "fs W (os_path_join runway_dir (''application-master-'' @ env' @ ''.json'')) =
         Inl FileNotFoundError"
    with entry be show "b' env' = None" by (simp add: json_load_def) }
  show "\<forall>contents v.
         fs W (os_path_join runway_dir (''application-master-'' @ env' @ ''.json'')) =
           Inr contents \<and> json_loads W contents = Inr v \<longrightarrow> b' env' = Some v"
    using entry be by (auto simp: json_load_def)
qed

theorem environment_entries_witness:
  "(\<exists>b lg.
      process_git_configs (example_world example_files example_answers) ''forrest/core'' ''token'' =
        (Inr b, lg) \<and>
      b ''dev'' = None \<and> b ''prod'' = Some (JObj [(''a'', JNum 1)])) \<and>
   (\<exists>b'.
      process_runway_configs (example_world example_files example_answers) ''runway'' = Inr b' \<and>
      b' ''dev'' = None \<and> b' ''prod'' = Some (JObj [(''instance_type'', JStr ''m5.large'')]))"
proof -
  let ?W = "example_world example_files example_answers"
  let ?srv = "\<lparr>host = GIT_URL ?W, token = strip ''  s3cret\<newline>''\<rparr>"
  obtain b lg where g: "process_git_configs ?W ''forrest/core'' ''token'' = (Inr b, lg)"
    using example_git_run by blast
  obtain b' where r: "process_runway_configs ?W ''runway'' = Inr b'"
    using example_runway_run by blast
  have tok: "fs ?W ''token'' = Inr ''  s3cret\<newline>''"
    by (simp add: example_defs example_files_def)
  have pj: "net ?W ?srv (Getproject ''forrest/core'') = Inr (JObj [(''id'', JNum 7)])"
    by (simp add: example_defs)
  have pid: "getitem (JObj [(''id'', JNum 7)]) ''id'' = Inr (JNum 7)" by simp
  have dev: "net ?W ?srv
      (Getfile (JNum 7) (''runway/application-master-'' @ ''dev'' @ ''.json'') ''master'') =
      Inr (JBool False)"
    by (simp add: example_defs)
  have prod: "net ?W ?srv
      (Getfile (JNum 7) (''runway/application-master-'' @ ''prod'' @ ''.json'') ''master'') =
      Inr (JObj [(''content'', JStr ''eyJhIjoxfQ=='')])"
    by (simp add: example_defs)
  have envs: "''dev'' \<in> set ENVS" "''prod'' \<in> set ENVS" by (simp_all add: ENVS_def)
  have nodev: "fs ?W (os_path_join ''runway'' (''application-master-'' @ ''dev'' @ ''.json'')) =
      Inl FileNotFoundError"
    by (simp add: example_defs example_files_def os_path_join_def)
  have hasprod:
    \<open>fs ?W (os_path_join ''runway'' (''application-master-'' @ ''prod'' @ ''.json'')) =
      Inr ''{"instance_type":"m5.large"}''\<close>
    by (simp add: example_defs example_files_def os_path_join_def)
  have loads:
    \<open>json_loads ?W ''{"instance_type":"m5.large"}'' =
      Inr (JObj [(''instance_type'', JStr ''m5.large'')])\<close>
    by (simp add: example_defs)
  note d = environment_entries [of "?W" "''forrest/core''" "''token''" b lg "''  s3cret\<newline>''"
      "JObj [(''id'', JNum 7)]" "JNum 7" "''dev''" "JBool False" "''runway''" b' "''dev''"]
  note p = environment_entries [of "?W" "''forrest/core''" "''token''" b lg "''  s3cret\<newline>''"
      "JObj [(''id'', JNum 7)]" "JNum 7" "''prod''" "JObj [(''content'', JStr ''eyJhIjoxfQ=='')]"
      "''runway''" b' "''prod''"]
  from d g r tok pj pid dev envs nodev have 1: "b ''dev'' = None" "b' ''dev'' = None"
    by auto
  from p g tok pj pid prod envs obtain c file_contents s v where
    "getitem (JObj [(''content'', JStr ''eyJhIjoxfQ=='')]) ''content'' = Inr c"
    "b64decode ?W c = Inr file_contents" "bytes_decode ?W file_contents = Inr s"
    "json_loads ?W s = Inr v" "b ''prod'' = Some v"
    by auto
  then have 2: "b ''prod'' = Some (JObj [(''a'', JNum 1)])"
    by (auto simp: example_defs)
  from p r envs hasprod loads have 3: "b' ''prod'' = Some (JObj [(''instance_type'', JStr ''m5.large'')])"
    by blast
  from g r 1 2 3 show ?thesis by blast
qed


text \<open>
  C4: when \<open>pipeline.json\<close> does not exist in the directory, \<open>process_runway_configs\<close>
  still returns once the loop over the environments has completed, and in every bundle it
  returns the \<open>pipeline\<close> entry is exactly \<^verbatim>\<open>{"env": ["stage", "prod"]}\<close>, which has no
  \<open>config_commit\<close> key.
\<close>

theorem missing_local_pipeline_defaults:
  assumes "fs W (os_path_join runway_dir ''pipeline.json'') = Inl FileNotFoundError"
  shows "(runway_envs W runway_dir ENVS Map.empty = Inr cfg \<longrightarrow>
            process_runway_configs W runway_dir =
              Inr (cfg(''pipeline'' \<mapsto> JObj [(''env'', JArr [JStr ''stage'', JStr ''prod''])]))) \<and>
         (process_runway_configs W runway_dir = Inr b \<longrightarrow>
            b ''pipeline'' = Some (JObj [(''env'', JArr [JStr ''stage'', JStr ''prod''])]) \<and>
            getitem (JObj [(''env'', JArr [JStr ''stage'', JStr ''prod''])]) ''config_commit'' =
              Inl KeyError)"
proof -
  from assms have jl: "json_load W (os_path_join runway_dir ''pipeline.json'') =
      Inl FileNotFoundError"
    by (simp add: json_load_def)
  then have pl: "runway_pipeline W runway_dir c =
      Inr (c(''pipeline'' \<mapsto> JObj [(''env'', JArr [JStr ''stage'', JStr ''prod''])]))" for c
    by (simp add: runway_pipeline_def Let_def default_pipeline_def)
  have 1: "process_runway_configs W runway_dir =
      Inr (cfg(''pipeline'' \<mapsto> JObj [(''env'', JArr [JStr ''stage'', JStr ''prod''])]))"
    if "runway_envs W runway_dir ENVS Map.empty = Inr cfg"
    using that pl by (simp add: process_runway_configs_def)
  have 2: "b ''pipeline'' = Some (JObj [(''env'', JArr [JStr ''stage'', JStr ''prod''])])"
    if "process_runway_configs W runway_dir = Inr b"
    using that pl by (auto simp: process_runway_configs_def split: sum.splits)
  from 1 2 show ?thesis by simp
qed

theorem missing_local_pipeline_defaults_witness:
  "fs (example_world example_files example_answers) (os_path_join ''runway'' ''pipeline.json'') =
     Inl FileNotFoundError \<and>
   (\<exists>b. process_runway_configs (example_world example_files example_answers) ''runway'' = Inr b \<and>
      b ''pipeline'' = Some (JObj [(''env'', JArr [JStr ''stage'', JStr ''prod''])]))"
proof -
  have a: "fs (example_world example_files example_answers)
      (os_path_join ''runway'' ''pipeline.json'') = Inl FileNotFoundError"
    by (simp add: example_defs example_files_def os_path_join_def)
  obtain b where r: "process_runway_configs (example_world example_files example_answers)
      ''runway'' = Inr b"
    using example_runway_run by blast
  from missing_local_pipeline_defaults [OF a, of _ b] r a show ?thesis by blast
qed

text \<open>
  C8 as stated (the \<open>pipeline\<close> entry of \<open>process_runway_configs\<close> never carries
  \<open>config_commit\<close>) fails. A \<open>pipeline.json\<close> that itself holds the key, here
  \<^verbatim>\<open>{"config_commit":"abc"}\<close>, is returned as it is.
\<close>

theorem local_config_commit_counterexample:
  \<open>entry
     (process_runway_configs
        (example_world [(''runway/pipeline.json'', Inr ''{"config_commit":"abc"}'')] [])
        ''runway'')
     ''pipeline'' =
     Some (JObj [(''config_commit'', JStr ''abc'')]) \<and>
   getitem (JObj [(''config_commit'', JStr ''abc'')]) ''config_commit'' = Inr (JStr ''abc'')\<close>
  by (simp add: entry_def runway_defs example_defs)

text \<open>
  C8 as amended: \<open>process_runway_configs\<close> never adds a \<open>config_commit\<close> field. In every
  bundle it returns, the \<open>pipeline\<close> entry is the parsed content of \<open>pipeline.json\<close> when
  the file is read and parses, and the default when the file does not exist; so the entry
  carries \<open>config_commit\<close> only if the parsed file itself does.
\<close>

theorem local_pipeline_is_file_or_default:
  assumes "process_runway_configs W runway_dir = Inr b"
  shows "(\<forall>contents v.
            fs W (os_path_join runway_dir ''pipeline.json'') = Inr contents \<and>
            json_loads W contents = Inr v \<longrightarrow> b ''pipeline'' = Some v) \<and>
         (fs W (os_path_join runway_dir ''pipeline.json'') = Inl FileNotFoundError \<longrightarrow>
            b ''pipeline'' = Some (JObj [(''env'', JArr [JStr ''stage'', JStr ''prod''])])) \<and>
         (\<forall>p c.
            b ''pipeline'' = Some p \<and> getitem p ''config_commit'' = Inr c \<longrightarrow>
            (\<exists>contents.
               fs W (os_path_join runway_dir ''pipeline.json'') = Inr contents \<and>
               json_loads W contents = Inr p))"
proof -
  let ?f = "os_path_join runway_dir ''pipeline.json''"
  from assms obtain cfg where
    b: "case json_load W ?f of
       Inr v \<Rightarrow> b = cfg(''pipeline'' \<mapsto> v)
     | Inl e \<Rightarrow> e = FileNotFoundError \<and> b = cfg(''pipeline'' \<mapsto> default_pipeline)"
    by (rule process_runway_configs_result)
  have 1: "b ''pipeline'' = Some v"
    if "fs W ?f = Inr contents" "json_loads W contents = Inr v" for contents v
    using b that by (simp add: json_load_def)
  have 2: "b ''pipeline'' = Some (JObj [(''env'', JArr [JStr ''stage'', JStr ''prod''])])"
    if "fs W ?f = Inl FileNotFoundError"
    using b that by (simp add: json_load_def default_pipeline_def)
  have 3: "\<exists>contents. fs W ?f = Inr contents \<and> json_loads W contents = Inr p"
    if "b ''pipeline'' = Some p" "getitem p ''config_commit'' = Inr c" for p c
  proof (cases "json_load W ?f")
    case (Inl e)
    with b that(1) have "p = default_pipeline" by simp
    with that(2) show ?thesis by (simp add: default_pipeline_def)
  next
    case (Inr v)
    with b that(1) have "v = p" by simp
    with Inr show ?thesis by (auto simp: json_load_def split: sum.splits)
  qed
  from 1 2 3 show ?thesis by blast
qed

theorem local_pipeline_is_file_or_default_witness:
  \<open>\<exists>b. process_runway_configs
         (example_world [(''runway/pipeline.json'', Inr ''{"env":["stage"]}'')] []) ''runway'' =
         Inr b \<and>
       b ''pipeline'' = Some (JObj [(''env'', JArr [JStr ''stage''])])\<close>
proof -
  let ?W = \<open>example_world [(''runway/pipeline.json'', Inr ''{"env":["stage"]}'')] []\<close>
  have \<open>\<exists>b. process_runway_configs ?W ''runway'' = Inr b\<close>
    by (simp add: runway_defs example_defs)
  then obtain b where r: "process_runway_configs ?W ''runway'' = Inr b" by blast
  have f: \<open>fs ?W (os_path_join ''runway'' ''pipeline.json'') = Inr ''{"env":["stage"]}''\<close>
    by (simp add: example_defs os_path_join_def)
  have l: \<open>json_loads ?W ''{"env":["stage"]}'' = Inr (JObj [(''env'', JArr [JStr ''stage''])])\<close>
    by (simp add: example_defs)
  from local_pipeline_is_file_or_default [OF r] f l
  have "b ''pipeline'' = Some (JObj [(''env'', JArr [JStr ''stage''])])" by blast
  with r show ?thesis by blast
qed


section \<open>Runs that raise\<close>

lemma is_ValueError_not_missing: "is_ValueError e \<Longrightarrow> e \<noteq> FileNotFoundError"
  by (cases e) simp_all

lemma not_Inr_is_Inl: "(\<And>b. r \<noteq> Inr b) \<Longrightarrow> \<exists>x. r = Inl x"
  by (cases r) auto

lemma setitem_not_dict: "\<not> is_dict v \<Longrightarrow> setitem v k x = Inl TypeError"
  by (cases v) simp_all





lemma process_git_configs_unfold:
  assumes "fs W token_file = Inr body"
    and "net W \<lparr>host = GIT_URL W, token = strip body\<rparr> (Getproject git_short) = Inr project"
    and "getitem project ''id'' = Inr project_id"
  shows "process_git_configs W git_short token_file =
     (case git_envs W \<lparr>host = GIT_URL W, token = strip body\<rparr> project_id ENVS Map.empty
             [(\<lparr>host = GIT_URL W, token = strip body\<rparr>, Getproject git_short)] of
        (Inl e, lg2) \<Rightarrow> (Inl e, lg2)
      | (Inr cfg2, lg2) \<Rightarrow>
          (case git_pipeline W \<lparr>host = GIT_URL W, token = strip body\<rparr> project_id cfg2 lg2 of
             (Inl e, lg3) \<Rightarrow> (Inl e, lg3)
           | (Inr cfg3, lg3) \<Rightarrow>
               (case git_commit_id W \<lparr>host = GIT_URL W, token = strip body\<rparr> project_id lg3 of
                  (Inl e, lg4) \<Rightarrow> (Inl e, lg4)
                | (Inr config_commit, lg4) \<Rightarrow> (set_config_commit cfg3 config_commit, lg4))))"
  using assms by (simp add: process_git_configs_def read_token_def call_def Let_def)



lemma process_git_configs_not_dict:
  assumes "fs W token_file = Inr body"
    and "net W \<lparr>host = GIT_URL W, token = strip body\<rparr> (Getproject git_short) = Inr project"
    and "getitem project ''id'' = Inr project_id"
    and "fst (git_envs W \<lparr>host = GIT_URL W, token = strip body\<rparr> project_id ENVS Map.empty
             [(\<lparr>host = GIT_URL W, token = strip body\<rparr>, Getproject git_short)]) = Inr cfg"
    and "net W \<lparr>host = GIT_URL W, token = strip body\<rparr>
           (Getfile project_id ''runway/pipeline.json'' ''master'') = Inr blob"
    and "truthy blob"
    and "load_blob W ''runway/pipeline.json'' blob = Inr v"
    and "\<not> is_dict v"
    and "net W \<lparr>host = GIT_URL W, token = strip body\<rparr> (Getbranch project_id ''master'') = Inr branch"
    and "getitem branch ''commit'' = Inr commit"
    and "getitem commit ''id'' = Inr config_commit"
  shows "fst (process_git_configs W git_short token_file) = Inl TypeError"
  using assms(4-11) setitem_not_dict[OF assms(8)]
  unfolding process_git_configs_unfold[OF assms(1-3)]
  by (auto simp: git_pipeline_def git_commit_id_def set_config_commit_def call_def
      split: prod.splits sum.splits)


text \<open>
  C9: in \<open>process_git_configs\<close>, when the remote \<open>pipeline.json\<close> is found and parses as
  JSON whose top-level value is not a dict, no bundle is returned; when the run reaches the
  injection of \<open>config_commit\<close> (the loop over the environments completes and the commit
  identifier resolves) it raises \<open>TypeError\<close>, which is not the \<open>SystemExit\<close> message. So a
  successful return with a pipeline file present needs its value to be a dict.
\<close>

theorem non_dict_pipeline_raises_TypeError:
  assumes "fs W token_file = Inr text"
    and "server = \<lparr>host = GIT_URL W, token = strip text\<rparr>"
    and "net W server (Getproject git_short) = Inr project"
    and "getitem project ''id'' = Inr project_id"
    and "net W server (Getfile project_id ''runway/pipeline.json'' ''master'') = Inr pipeline_blob"
    and "truthy pipeline_blob"
    and "getitem pipeline_blob ''content'' = Inr c"
    and "b64decode W c = Inr pipeline_contents"
    and "bytes_decode W pipeline_contents = Inr s"
    and "json_loads W s = Inr v"
    and "\<not> is_dict v"
  shows "(\<exists>e. fst (process_git_configs W git_short token_file) = Inl e) \<and>
         (fst (git_envs W server project_id ENVS Map.empty [(server, Getproject git_short)]) =
            Inr cfg \<and>
          net W server (Getbranch project_id ''master'') = Inr branch \<and>
          getitem branch ''commit'' = Inr commit \<and>
          getitem commit ''id'' = Inr config_commit \<longrightarrow>
            fst (process_git_configs W git_short token_file) = Inl TypeError \<and>
            TypeError \<noteq> SystemExit (JSON_ERROR_MSG ''runway/pipeline.json''))"
proof -
  have lb: "load_blob W ''runway/pipeline.json'' pipeline_blob = Inr v"
    using assms(7-10) by (auto simp: load_blob_Inr)
  have "fst (process_git_configs W git_short token_file) \<noteq> Inr b" for b
  proof
    assume "fst (process_git_configs W git_short token_file) = Inr b"
    then obtain lg where "process_git_configs W git_short token_file = (Inr b, lg)"
      by (cases "process_git_configs W git_short token_file") auto
    then obtain body project' project_id' p kvs where
      h: "fs W token_file = Inr body"
      "net W \<lparr>host = GIT_URL W, token = strip body\<rparr> (Getproject git_short) = Inr project'"
      "getitem project' ''id'' = Inr project_id'"
      and p: "net W \<lparr>host = GIT_URL W, token = strip body\<rparr>
         (Getfile project_id' ''runway/pipeline.json'' ''master'') = Inr p"
      and k: "if truthy p then load_blob W ''runway/pipeline.json'' p = Inr (JObj kvs)
         else default_pipeline = JObj kvs"
      by (rule git_bundle)
    from h assms(1-4) have "body = text" "project_id' = project_id" by auto
    with p assms(2,5) have "p = pipeline_blob" by simp
    with k assms(6) lb have "v = JObj kvs" by simp
    with assms(11) show False by simp
  qed
  then have 1: "\<exists>e. fst (process_git_configs W git_short token_file) = Inl e"
    by (rule not_Inr_is_Inl)
  have 2: "fst (process_git_configs W git_short token_file) = Inl TypeError"
    if "fst (git_envs W server project_id ENVS Map.empty [(server, Getproject git_short)]) =
            Inr cfg"
      "net W server (Getbranch project_id ''master'') = Inr branch"
      "getitem branch ''commit'' = Inr commit"
      "getitem commit ''id'' = Inr config_commit"
    using process_git_configs_not_dict [OF assms(1) assms(3)[unfolded assms(2)] assms(4)
        that(1)[unfolded assms(2)] assms(5)[unfolded assms(2)] assms(6) lb assms(11)
        that(2)[unfolded assms(2)] that(3) that(4)] .
  from 1 2 show ?thesis by simp
qed

theorem non_dict_pipeline_raises_TypeError_witness:
  "fst (process_git_configs
     (example_world example_files (example_project [(''runway/pipeline.json'', ''W10='')]))
     ''forrest/core'' ''token'') = Inl TypeError"
proof -
  let ?W = "example_world example_files (example_project [(''runway/pipeline.json'', ''W10='')])"
  let ?srv = "\<lparr>host = GIT_URL ?W, token = strip ''  s3cret\<newline>''\<rparr>"
  have tok: "fs ?W ''token'' = Inr ''  s3cret\<newline>''"
    by (simp add: example_defs example_files_def)
  have pj: "net ?W ?srv (Getproject ''forrest/core'') = Inr (JObj [(''id'', JNum 7)])"
    by (simp add: example_defs example_project_def)
  have pid: "getitem (JObj [(''id'', JNum 7)]) ''id'' = Inr (JNum 7)" by simp
  have blob: "net ?W ?srv (Getfile (JNum 7) ''runway/pipeline.json'' ''master'') =
      Inr (JObj [(''content'', JStr ''W10='')])"
    by (simp add: example_defs example_project_def)
  have tr: "truthy (JObj [(''content'', JStr ''W10='')])" by simp
  have c: "getitem (JObj [(''content'', JStr ''W10='')]) ''content'' = Inr (JStr ''W10='')"
    by simp
  have d: "b64decode ?W (JStr ''W10='') = Inr ''[]''" by (simp add: example_defs)
  have u: "bytes_decode ?W ''[]'' = Inr ''[]''" by (simp add: example_defs)
  have l: "json_loads ?W ''[]'' = Inr (JArr [])" by (simp add: example_defs)
  have nd: "\<not> is_dict (JArr [])" by simp
  have envs: "fst (git_envs ?W ?srv (JNum 7) ENVS Map.empty [(?srv, Getproject ''forrest/core'')]) =
      Inr Map.empty"
    by (simp add: example_defs example_project_def ENVS_def app_json_def call_def)
  have br: "net ?W ?srv (Getbranch (JNum 7) ''master'') =
      Inr (JObj [(''commit'', JObj [(''id'', JStr ''4f2a'')])])"
    by (simp add: example_defs example_project_def)
  have cm: "getitem (JObj [(''commit'', JObj [(''id'', JStr ''4f2a'')])]) ''commit'' =
      Inr (JObj [(''id'', JStr ''4f2a'')])" by simp
  have ci: "getitem (JObj [(''id'', JStr ''4f2a'')]) ''id'' = Inr (JStr ''4f2a'')" by simp
  from non_dict_pipeline_raises_TypeError [OF tok refl pj pid blob tr c d u l nd,
      of Map.empty "JObj [(''commit'', JObj [(''id'', JStr ''4f2a'')])]"
         "JObj [(''id'', JStr ''4f2a'')]" "JStr ''4f2a''"]
    envs br cm ci
  show ?thesis by blast
qed






end
